theory Spec2Isabelle
  imports Main
begin

section \<open>Go type descriptors (package reflect)\<close>

text \<open>
  The schema inference of \<^verbatim>\<open>infer/schema.go\<close> is a function of Go type descriptors
  (\<^verbatim>\<open>reflect.Type\<close>). A descriptor is modelled as a finite tree. What the source reads
  from a descriptor is its kind, its element and key types, its name, its struct fields,
  which interfaces it implements, and what a few methods return when they are called on
  the zero value of the type; all of that is data of the tree. A type that contains itself
  has no finite tree and is outside the model.
\<close>

datatype kind =
    Bool | Int' | Int8 | Int16 | Int32 | Int64
  | Uint | Uint8 | Uint16 | Uint32 | Uint64 | Uintptr
  | Float32 | Float64 | Complex64 | Complex128
  | Array | Chan | Func | Interface | Map | Pointer | Slice | String | Struct
  | UnsafePointer

text \<open>
  How a defined type implements an interface: not at all, with methods in the method set
  of the type itself (value receivers, or the methods of an interface type), or only in
  the method set of the pointer to it (pointer receivers).
\<close>

datatype impl = Absent | ByValue | ByPointer

text \<open>Values of type \<^verbatim>\<open>any\<close> (defaults set by an annotation hook).\<close>

datatype any = AnyNil | AnyBool bool | AnyInt int | AnyString string

text \<open>
  \<^verbatim>\<open>introspect.Annotator\<close>, as far as this file reads it: the three public maps.
\<close>

record Annotator =
  Descriptions :: "string \<rightharpoonup> string"
  Defaults :: "string \<rightharpoonup> any"
  DefaultEnvs :: "string \<rightharpoonup> string list"

text \<open>
  \<open>Basic k\<close> is the predeclared type of a basic kind (\<^verbatim>\<open>bool\<close>, \<^verbatim>\<open>int8\<close>,
  \<^verbatim>\<open>string\<close>, ...). \<open>Named n ms u\<close> is a type with a method set: the defined type of
  name \<open>n\<close> and underlying type \<open>u\<close> (\<open>n\<close> is empty for a struct or interface literal
  that has methods). The method set \<open>ms\<close> says which of the five interfaces the source
  asks about are implemented and how, and holds what the methods return on the zero value:
  \<^item> \<open>annotated\<close>, \<open>annotation\<close>: \<^verbatim>\<open>infer.Annotated\<close>, and the annotator as the hook
    \<^verbatim>\<open>Annotate\<close> leaves it;
  \<^item> \<open>schResource\<close>, \<open>getToken\<close>: \<^verbatim>\<open>sch.Resource\<close>, and the token and error message
    that \<^verbatim>\<open>GetToken()\<close> returns;
  \<^item> \<open>pulumiResource\<close>: \<^verbatim>\<open>pulumi.Resource\<close>;
  \<^item> \<open>pulumiOutput\<close>, \<open>pulumiInput\<close>, \<open>elementType\<close>: \<^verbatim>\<open>pulumi.Output\<close>,
    \<^verbatim>\<open>pulumi.Input\<close>, and the descriptor that \<^verbatim>\<open>ElementType()\<close> returns
    (\<open>None\<close> is the nil \<^verbatim>\<open>reflect.Type\<close>);
  \<^item> \<open>methods\<close>: the exported methods of the type's own method set, each with its
    result types.

  The methods themselves belong to the pulumi SDK or to the author of the type; they are
  taken to return, and what they return is the data above. An interface type is a
  \<open>Named\<close> type over \<open>InterfaceOf\<close> that has the methods of the interface \<open>ByValue\<close>;
  \<open>InterfaceOf\<close> alone is \<^verbatim>\<open>interface{}\<close>.
\<close>

datatype rtype =
    Basic kind
  | PointerTo rtype
  | SliceOf rtype
  | ArrayOf nat rtype
  | MapOf rtype rtype
  | ChanOf rtype
  | FuncOf "rtype list" "rtype list"
  | InterfaceOf
  | StructOf "field list"
  | Named string methodset rtype
and field = StructField (sfName: string) (sfType: rtype) (sfTag: string)
and methodset = MethodSet
  (annotated: impl) (annotation: Annotator)
  (schResource: impl) (getToken: "string \<times> string option")
  (pulumiResource: impl)
  (pulumiOutput: impl) (pulumiInput: impl) (elementType: "rtype option")
  (methods: "(string \<times> rtype list) list")

fun Kind :: "rtype \<Rightarrow> kind" where
  "Kind (Basic k) = k"
| "Kind (PointerTo t) = Pointer"
| "Kind (SliceOf t) = Slice"
| "Kind (ArrayOf n t) = Array"
| "Kind (MapOf k t) = Map"
| "Kind (ChanOf t) = Chan"
| "Kind (FuncOf ins outs) = Func"
| "Kind InterfaceOf = Interface"
| "Kind (StructOf fs) = Struct"
| "Kind (Named n ms u) = Kind u"

text \<open>
  \<^verbatim>\<open>Elem\<close>, \<^verbatim>\<open>Key\<close> and the field list panic in Go on a type of the wrong kind;
  here they are \<open>None\<close> there.
\<close>

fun Elem :: "rtype \<Rightarrow> rtype option" where
  "Elem (PointerTo t) = Some t"
| "Elem (SliceOf t) = Some t"
| "Elem (ArrayOf n t) = Some t"
| "Elem (MapOf k t) = Some t"
| "Elem (ChanOf t) = Some t"
| "Elem (Named n ms u) = Elem u"
| "Elem _ = None"

fun Key :: "rtype \<Rightarrow> rtype option" where
  "Key (MapOf k t) = Some k"
| "Key (Named n ms u) = Key u"
| "Key _ = None"

fun Fields :: "rtype \<Rightarrow> field list option" where
  "Fields (StructOf fs) = Some fs"
| "Fields (Named n ms u) = Fields u"
| "Fields _ = None"

fun kindName :: "kind \<Rightarrow> string" where
  "kindName Bool = ''bool''"
| "kindName Int' = ''int''"
| "kindName Int8 = ''int8''"
| "kindName Int16 = ''int16''"
| "kindName Int32 = ''int32''"
| "kindName Int64 = ''int64''"
| "kindName Uint = ''uint''"
| "kindName Uint8 = ''uint8''"
| "kindName Uint16 = ''uint16''"
| "kindName Uint32 = ''uint32''"
| "kindName Uint64 = ''uint64''"
| "kindName Uintptr = ''uintptr''"
| "kindName Float32 = ''float32''"
| "kindName Float64 = ''float64''"
| "kindName Complex64 = ''complex64''"
| "kindName Complex128 = ''complex128''"
| "kindName String = ''string''"
| "kindName UnsafePointer = ''Pointer''"
| "kindName _ = []"

fun TypeName :: "rtype \<Rightarrow> string" where
  "TypeName (Named n ms u) = n"
| "TypeName (Basic k) = kindName k"
| "TypeName _ = []"

text \<open>
  \<^verbatim>\<open>t.MethodByName(name)\<close> on a type that is not a pointer: the result types of the
  method, when the type has it.
\<close>

fun MethodByName :: "rtype \<Rightarrow> string \<Rightarrow> rtype list option" where
  "MethodByName (Named n ms u) name = map_of (methods ms) name"
| "MethodByName _ name = None"

text \<open>
  \<^verbatim>\<open>t.Implements(iface)\<close>, the interface given by its selector of the method set. A
  pointer to a defined type has the methods of both receivers; a pointer to an interface
  type has none.
\<close>

fun Implements :: "rtype \<Rightarrow> (methodset \<Rightarrow> impl) \<Rightarrow> bool" where
  "Implements (Named n ms u) iface = (iface ms = ByValue)"
| "Implements (PointerTo (Named n ms u)) iface = (Kind u \<noteq> Interface \<and> iface ms \<noteq> Absent)"
| "Implements _ iface = False"

text \<open>
  The loop \<^verbatim>\<open>for t.Kind() == reflect.Pointer { t = t.Elem() }\<close>, which opens four of
  the functions below.
\<close>

fun stripPointers :: "rtype \<Rightarrow> rtype" where
  "stripPointers (PointerTo t) = stripPointers t"
| "stripPointers (Named n ms u) = (if Kind u = Pointer then stripPointers u else Named n ms u)"
| "stripPointers t = t"

section \<open>Results, errors and panics\<close>

datatype panic =
    NilPointerDereference
  | InterfaceConversion
  | AssertionFailed string
  | NotAStruct
  | NotAMapOrSequence
  | NoResult

text \<open>
  The errors this file builds with \<^verbatim>\<open>fmt.Errorf\<close>, one constructor per format string,
  with the arguments of the format; \<open>External\<close> is an error returned by code outside
  this file.
\<close>

datatype error =
    External string
  | MapKeysMustBeStrings rtype
  | UnknownType rtype
  | InputWithoutSuffix string
  | InputWithoutToOutput string string
  | ReturnTypeNotOutput "rtype option" string string
  | MissingTypeTag rtype
  | InvalidFields string rtype error
  | InvalidType rtype rtype string error
  | CouldNotSerializeOutput rtype error
  | CouldNotSerializeInput rtype error

text \<open>A call either returns its Go result tuple or panics.\<close>

datatype 'a outcome = Returns 'a | Panics panic

section \<open>The schema types (package schema)\<close>

datatype TypeSpec = TypeSpec
  (Type: string) (Ref: string) (Plain: bool)
  (AdditionalProperties: "TypeSpec option") (Items: "TypeSpec option")

definition zeroTypeSpec :: TypeSpec where
  "zeroTypeSpec = TypeSpec [] [] False None None"

definition refTo :: "string \<Rightarrow> TypeSpec" where
  "refTo r = TypeSpec [] r False None None"

section \<open>strings.Split\<close>

text \<open>
  \<^verbatim>\<open>strings.Split(s, sep)\<close> for a separator of one byte, the only use in this file:
  the segments of \<open>s\<close> between the separators, one segment more than there are
  separators. \<open>cur\<close> is the segment being read.
\<close>

fun splitFrom :: "char \<Rightarrow> string \<Rightarrow> string \<Rightarrow> string list" where
  "splitFrom sep cur [] = [cur]"
| "splitFrom sep cur (c # s) =
     (if c = sep then cur # splitFrom sep [] s else splitFrom sep (cur @ [c]) s)"

definition Split :: "string \<Rightarrow> char \<Rightarrow> string list" where
  "Split s sep = splitFrom sep [] s"

section \<open>strings.HasSuffix and strings.TrimSuffix\<close>

definition HasSuffix :: "string \<Rightarrow> string \<Rightarrow> bool" where
  "HasSuffix s suffix =
     (length suffix \<le> length s \<and> drop (length s - length suffix) s = suffix)"

definition TrimSuffix :: "string \<Rightarrow> string \<Rightarrow> string" where
  "TrimSuffix s suffix =
     (if HasSuffix s suffix then take (length s - length suffix) s else s)"

section \<open>Zero values and their methods\<close>

text \<open>
  \<^verbatim>\<open>reflect.New(t).Elem().Interface()\<close> boxes the zero value of \<open>t\<close>. Asserting the
  box to an interface succeeds when \<open>t\<close> is not an interface type (else the box is nil)
  and \<open>t\<close> implements the interface.
\<close>

definition zeroValueIs :: "rtype \<Rightarrow> (methodset \<Rightarrow> impl) \<Rightarrow> bool" where
  "zeroValueIs t iface = (Kind t \<noteq> Interface \<and> Implements t iface)"

text \<open>
  Calling a method of the interface on that zero value. The zero value of a pointer type
  is a nil pointer: a method of the value's own method set dereferences it, a method with
  a pointer receiver runs.
\<close>

fun callMethod :: "rtype \<Rightarrow> (methodset \<Rightarrow> impl) \<Rightarrow> (methodset \<Rightarrow> 'a) \<Rightarrow> 'a outcome" where
  "callMethod (Named n ms u) iface m = Returns (m ms)"
| "callMethod (PointerTo (Named n ms u)) iface m =
     (if iface ms = ByValue then Panics NilPointerDereference else Returns (m ms))"
| "callMethod _ iface m = Panics NilPointerDereference"

text \<open>
  \<^verbatim>\<open>reflect.New(t).Elem().Interface().(I).M()\<close>: the assertion with one result, which
  panics when it fails.
\<close>

definition callOnZero :: "rtype \<Rightarrow> (methodset \<Rightarrow> impl) \<Rightarrow> (methodset \<Rightarrow> 'a) \<Rightarrow> 'a outcome" where
  "callOnZero t iface m =
     (if zeroValueIs t iface then callMethod t iface m else Panics InterfaceConversion)"

section \<open>getAnnotated\<close>

definition emptyAnnotator :: Annotator where
  "emptyAnnotator =
     \<lparr>Descriptions = Map.empty, Defaults = Map.empty, DefaultEnvs = Map.empty\<rparr>"

text \<open>The first loop of \<^verbatim>\<open>getAnnotated\<close> stops at a pointer to a non-pointer.\<close>

lemma Elem_size: "Elem t = Some e \<Longrightarrow> size e < size t"
  by (induction t rule: Elem.induct) auto

function stripToSinglePointer :: "rtype \<Rightarrow> rtype" where
  "stripToSinglePointer t =
     (if Kind t = Pointer then
        (case Elem t of
           Some e \<Rightarrow> if Kind e = Pointer then stripToSinglePointer e else t
         | None \<Rightarrow> t)
      else t)"
  by pat_completeness auto
termination
  by (relation "measure size") (auto simp: Elem_size)

declare stripToSinglePointer.simps [simp del]

text \<open>
  \<open>None\<close> is the nil \<^verbatim>\<open>reflect.Type\<close>, on which \<^verbatim>\<open>t.Kind()\<close> panics. The value
  \<open>i\<close> of the source is followed by its type \<open>iT\<close>: the zero value of a pointer type
  is nil, so the first \<^verbatim>\<open>if\<close> replaces it by a pointer to a new element, and the second
  takes the address of a value that is not a pointer. In both cases \<open>i\<close> ends as a
  pointer that is not nil. When its type implements \<^verbatim>\<open>Annotated\<close>, the source calls
  \<^verbatim>\<open>introspect.NewAnnotator(r)\<close> and then the hook. \<^verbatim>\<open>NewAnnotator\<close> is in another
  file of the repository: it follows the pointers of its argument and asserts that what it
  reaches is a struct ("FieldMatcher must contain a struct"), so it panics when the type
  pointed to is not of kind \<^verbatim>\<open>Struct\<close>. On a struct the annotator returned is what
  the hook leaves (\<open>annotation\<close>).
\<close>

definition getAnnotated :: "rtype option \<Rightarrow> Annotator outcome" where
  "getAnnotated t0 =
    (case t0 of
       None \<Rightarrow> Panics NilPointerDereference
     | Some t1 \<Rightarrow>
        (let t = stripToSinglePointer t1;
             iT = t;
             iT = (if Kind iT = Pointer
                   then (case Elem iT of Some e \<Rightarrow> PointerTo e | None \<Rightarrow> iT)
                   else iT);
             iT = (if Kind iT \<noteq> Pointer then PointerTo iT else iT)
         in
         if Implements iT annotated then
           (case iT of
              PointerTo (Named n ms u) \<Rightarrow>
                if Kind u = Struct then Returns (annotation ms)
                else Panics (AssertionFailed ''FieldMatcher must contain a struct'')
            | _ \<Rightarrow> Returns emptyAnnotator)
         else Returns emptyAnnotator))"

section \<open>resourceReferenceToken\<close>

text \<open>
  The three results are the \<^verbatim>\<open>TypeSpec\<close>, whether the type is a resource, and the
  error. \<^verbatim>\<open>contract.Assertf\<close> of the pulumi SDK panics when its condition is false.
\<close>

definition resourceReferenceToken ::
  "rtype \<Rightarrow> string \<Rightarrow> bool \<Rightarrow> (TypeSpec \<times> bool \<times> error option) outcome" where
  "resourceReferenceToken t extTag allowMissingExtType =
    (let ptrT = PointerTo t;
         implements = (\<lambda>typ. Implements t typ \<or> Implements ptrT typ)
     in
     if implements schResource then
       (case callOnZero t schResource getToken of
          Panics p \<Rightarrow> Panics p
        | Returns (tk, err) \<Rightarrow>
            Returns (refTo (''#/resources/'' @ tk), True, map_option External err))
     else if implements pulumiResource then
       (if extTag = [] then
          (if allowMissingExtType then Returns (zeroTypeSpec, True, None)
           else Returns (zeroTypeSpec, True, Some (MissingTypeTag t)))
        else
          (let parts = Split extTag (CHR '':'') in
           if length parts \<noteq> 3 then Panics (AssertionFailed ''invalid type= tag'')
           else
             (let head = Split (parts ! 0) (CHR ''@'') in
              if length head \<noteq> 2 then Panics (AssertionFailed ''invalid type= head'')
              else
                (let pkgName = head ! 0;
                     pkgVersion = head ! 1;
                     module = parts ! 1;
                     name = parts ! 2;
                     tk = pkgName @ '':'' @ module @ '':'' @ name
                 in Returns
                      (refTo (''/'' @ pkgName @ ''/'' @ pkgVersion @ ''/schema.json#/resources/'' @ tk),
                       True, None)))))
     else Returns (zeroTypeSpec, False, None))"

section \<open>Functions of other files of the repository\<close>

text \<open>
  \<^verbatim>\<open>introspect.FieldTag\<close>, the parsed tag of a struct field.
\<close>

record FieldTag =
  Name :: string
  Optional :: bool
  Internal :: bool
  Secret :: bool
  ReplaceOnChanges :: bool
  ExternalType :: string

text \<open>
  Three functions that \<^verbatim>\<open>schema.go\<close> calls are defined elsewhere in the repository
  and are parameters here:
  \<^item> \<open>isEnum\<close>: \<^verbatim>\<open>isEnum(t)\<close>, the token of the enumeration when \<open>t\<close> is one;
  \<^item> \<open>introspect_GetToken\<close>: \<^verbatim>\<open>introspect.GetToken("pkg", v)\<close> for the zero value
    \<open>v\<close> of a type, the token and the error message it returns;
  \<^item> \<open>introspect_ParseTag\<close>: \<^verbatim>\<open>introspect.ParseTag(field)\<close>, the tag and the error
    message it returns.
\<close>

record helpers =
  isEnum :: "rtype \<Rightarrow> string option"
  introspect_GetToken :: "rtype \<Rightarrow> string \<times> string option"
  introspect_ParseTag :: "field \<Rightarrow> FieldTag \<times> string option"

section \<open>structReferenceToken\<close>

definition structReferenceToken :: "helpers \<Rightarrow> rtype \<Rightarrow> string \<times> bool \<times> error option" where
  "structReferenceToken h t =
    (if Kind t \<noteq> Struct \<or> Implements t pulumiOutput then ([], False, None)
     else (case introspect_GetToken h t of
             (tk, err) \<Rightarrow> (tk, True, map_option External err)))"

section \<open>underlyingType\<close>

text \<open>
  The argument and the type returned may be the nil \<^verbatim>\<open>reflect.Type\<close> (\<open>None\<close>): the
  first and the last loop guard against it, \<^verbatim>\<open>t.Implements\<close> does not.
  \<open>isOutputType\<close> asks the pointer \<^verbatim>\<open>reflect.New(t)\<close>, \<open>isInputType\<close> asks \<open>t\<close>.
\<close>

definition underlyingType :: "rtype option \<Rightarrow> (rtype option \<times> bool \<times> error option) outcome" where
  "underlyingType t0 =
    (case map_option stripPointers t0 of
       None \<Rightarrow> Panics NilPointerDereference
     | Some t1 \<Rightarrow>
        (let isInputType = Implements t1 pulumiInput;
             isOutputType = Implements (PointerTo t1) pulumiOutput;
             t = stripPointers t1
         in
         if isOutputType then
           (case callOnZero t pulumiOutput elementType of
              Panics p \<Rightarrow> Panics p
            | Returns el \<Rightarrow> Returns (map_option stripPointers el, True, None))
         else if isInputType then
           (let T = TypeName t in
            if HasSuffix T ''Input'' then
              (let T = TrimSuffix T ''Input'' in
               case MethodByName t (''To'' @ T @ ''Output'') of
                 None \<Rightarrow> Returns (None, False, Some (InputWithoutToOutput (TypeName t) T))
               | Some outs \<Rightarrow>
                  (case outs of
                     [] \<Rightarrow> Panics NoResult
                   | outputT # _ \<Rightarrow>
                      if zeroValueIs outputT pulumiOutput then
                        (case callMethod outputT pulumiOutput elementType of
                           Panics p \<Rightarrow> Panics p
                         | Returns el \<Rightarrow> Returns (map_option stripPointers el, True, None))
                      else
                        Returns (None, False,
                          Some (ReturnTypeNotOutput
                                  (if Kind outputT = Interface then None else Some outputT)
                                  T (TypeName t)))))
            else Returns (None, False, Some (InputWithoutSuffix T)))
         else Returns (Some t, False, None)))"

lemma stripPointers_size: "size (stripPointers t) \<le> size t"
  by (induction t rule: stripPointers.induct) auto

lemma callMethod_elementType_size:
  "callMethod t iface elementType = Returns (Some el) \<Longrightarrow> size el < size t"
proof (induction t iface elementType rule: callMethod.induct)
  case (1 n ms u iface)
  then show ?case by (cases ms) auto
next
  case (2 n ms u iface)
  then show ?case by (cases ms) (auto split: if_splits)
qed auto

lemma MethodByName_size:
  assumes "MethodByName t name = Some outs" and "outputT \<in> set outs"
  shows "size outputT < size t"
proof (cases t)
  case (Named n ms u)
  with assms have mem: "(name, outs) \<in> set (methods ms)"
    by (auto dest: map_of_SomeD)
  have "size outputT \<le> size_list size outs"
    using assms(2) by (simp add: size_list_estimation')
  also have "\<dots> \<le> size_list (size_prod (\<lambda>x. 0) (size_list size)) (methods ms)"
    using mem by (auto intro: size_list_estimation')
  also have "\<dots> < size t"
    using Named by (cases ms) auto
  finally show ?thesis .
qed (use assms in auto)

lemma underlyingType_size:
  assumes "underlyingType (Some t) = Returns (Some u, w, e)"
  shows "size u \<le> size t"
proof -
  let ?t = "stripPointers (stripPointers t)"
  have le: "size ?t \<le> size t"
    using stripPointers_size [of "stripPointers t"] stripPointers_size [of t] by linarith
  have out: "size (stripPointers el) \<le> size t"
    if "callMethod ?t pulumiOutput elementType = Returns (Some el)" for el
    using callMethod_elementType_size [OF that] stripPointers_size [of el] le by linarith
  have inp: "size (stripPointers el) \<le> size t"
    if "MethodByName ?t nm = Some (outputT # rest)"
      and "callMethod outputT pulumiOutput elementType = Returns (Some el)" for nm outputT rest el
    using MethodByName_size [OF that(1), of outputT] callMethod_elementType_size [OF that(2)]
      stripPointers_size [of el] le by simp
  from assms show ?thesis
    by (auto simp: underlyingType_def Let_def callOnZero_def le
        split: if_splits outcome.splits option.splits list.splits
        intro: out inp)
qed

lemma walk_step_size:
  assumes "underlyingType (Some (stripPointers t0)) = Returns (Some u, w, e)"
    and "Elem u = Some elem"
  shows "size elem < size t0"
  using underlyingType_size [OF assms(1)] Elem_size [OF assms(2)] stripPointers_size [of t0]
  by linarith

section \<open>serializeTypeAsPropertyType\<close>

text \<open>
  The closure \<^verbatim>\<open>primitive\<close> of the source, with the variables it captures.
\<close>

definition primitive :: "bool \<Rightarrow> bool \<Rightarrow> string \<Rightarrow> (TypeSpec \<times> error option) outcome" where
  "primitive inputy indicatePlain t =
     Returns (TypeSpec t [] (\<not> inputy \<and> indicatePlain) None None, None)"

text \<open>
  The \<^verbatim>\<open>switch t.Kind()\<close> is the chain of its cases in their order. A call that panics
  makes the caller panic; a call that returns an error makes the caller return the empty
  \<^verbatim>\<open>TypeSpec\<close> and that error.
\<close>

function serializeTypeAsPropertyType ::
  "helpers \<Rightarrow> rtype \<Rightarrow> bool \<Rightarrow> string \<Rightarrow> (TypeSpec \<times> error option) outcome" where
  "serializeTypeAsPropertyType h t0 indicatePlain extType =
    (let t = stripPointers t0 in
     case isEnum h t of
       Some token \<Rightarrow> Returns (refTo (''#/types/'' @ token), None)
     | None \<Rightarrow>
    (case resourceReferenceToken t extType False of
       Panics p \<Rightarrow> Panics p
     | Returns (tk, ok, err) \<Rightarrow>
    if ok then
      (if err \<noteq> None then Returns (zeroTypeSpec, err) else Returns (tk, None))
    else
    (case structReferenceToken h t of (tk, ok, err) \<Rightarrow>
    if ok then
      (if err \<noteq> None then Returns (zeroTypeSpec, err)
       else Returns (refTo (''#/types/'' @ tk), None))
    else
    (case underlyingType (Some t) of
       Panics p \<Rightarrow> Panics p
     | Returns (t', inputy, Some err) \<Rightarrow> Returns (zeroTypeSpec, Some err)
     | Returns (None, inputy, None) \<Rightarrow> Panics NilPointerDereference
     | Returns (Some t, inputy, None) \<Rightarrow>
        if Kind t = Map then
          (case (Key t, Elem t) of
             (Some key, Some elem) \<Rightarrow>
               if Kind key \<noteq> String
               then Returns (zeroTypeSpec, Some (MapKeysMustBeStrings key))
               else
                 (case serializeTypeAsPropertyType h elem indicatePlain extType of
                    Panics p \<Rightarrow> Panics p
                  | Returns (el, Some err) \<Rightarrow> Returns (zeroTypeSpec, Some err)
                  | Returns (el, None) \<Rightarrow>
                      Returns (TypeSpec ''object'' [] False (Some el) None, None))
           | _ \<Rightarrow> Panics NotAMapOrSequence)
        else if Kind t = Array \<or> Kind t = Slice then
          (case Elem t of
             Some elem \<Rightarrow>
               (case serializeTypeAsPropertyType h elem indicatePlain extType of
                  Panics p \<Rightarrow> Panics p
                | Returns (el, Some err) \<Rightarrow> Returns (zeroTypeSpec, Some err)
                | Returns (el, None) \<Rightarrow>
                    Returns (TypeSpec ''array'' [] False None (Some el), None))
           | None \<Rightarrow> Panics NotAMapOrSequence)
        else if Kind t = Bool then primitive inputy indicatePlain ''boolean''
        else if Kind t = Int' \<or> Kind t = Int64 \<or> Kind t = Int32
          then primitive inputy indicatePlain ''integer''
        else if Kind t = Float64 then primitive inputy indicatePlain ''number''
        else if Kind t = String then primitive inputy indicatePlain ''string''
        else if Kind t = Interface then Returns (refTo ''pulumi.json#/Any'', None)
        else Returns (zeroTypeSpec, Some (UnknownType t))))))"
  by pat_completeness auto
termination
  by (relation "measure (\<lambda>(h, t, p, e). size t)") (auto intro: walk_step_size)

text \<open>
  The equation of the walker unfolds itself, so it is not a simplification rule: a proof
  unfolds it at the type it is about.
\<close>

declare serializeTypeAsPropertyType.simps [simp del]

section \<open>propertyListFromType\<close>

record DefaultSpec =
  Environment :: "string list"

record PropertySpec =
  PropTypeSpec :: TypeSpec
  PropSecret :: bool
  PropReplaceOnChanges :: bool
  PropDescription :: string
  PropDefault :: any
  PropDefaultInfo :: "DefaultSpec option"

text \<open>Indexing a Go map gives the zero value of the element type at a missing key.\<close>

definition index :: "('k \<rightharpoonup> 'v) \<Rightarrow> 'v \<Rightarrow> 'k \<Rightarrow> 'v" where
  "index m zero k = (case m k of None \<Rightarrow> zero | Some v \<Rightarrow> v)"

text \<open>
  The \<^verbatim>\<open>for\<close> loop over the fields, from the current field on, with the map and the
  list built so far. Both error exits return \<^verbatim>\<open>nil, nil\<close> and the error: the nil map is
  the empty map, and the nil slice the empty list.
\<close>

fun fieldsLoop ::
  "helpers \<Rightarrow> rtype \<Rightarrow> bool \<Rightarrow> Annotator \<Rightarrow> field list \<Rightarrow>
   (string \<rightharpoonup> PropertySpec) \<Rightarrow> string list \<Rightarrow>
   ((string \<rightharpoonup> PropertySpec) \<times> string list \<times> error option) outcome" where
  "fieldsLoop h typ indicatePlain annotations [] props required =
     Returns (props, required, None)"
| "fieldsLoop h typ indicatePlain annotations (field # rest) props required =
    (let fieldType = stripPointers (sfType field) in
     case introspect_ParseTag h field of
       (tags, Some err) \<Rightarrow>
         Returns (Map.empty, [], Some (InvalidFields (sfName field) typ (External err)))
     | (tags, None) \<Rightarrow>
        if Internal tags then fieldsLoop h typ indicatePlain annotations rest props required
        else
          (case serializeTypeAsPropertyType h fieldType indicatePlain (ExternalType tags) of
             Panics p \<Rightarrow> Panics p
           | Returns (serialized, Some err) \<Rightarrow>
               Returns (Map.empty, [], Some (InvalidType fieldType typ (sfName field) err))
           | Returns (serialized, None) \<Rightarrow>
              (let required = (if \<not> Optional tags then required @ [Name tags] else required);
                   spec = \<lparr>PropTypeSpec = serialized,
                           PropSecret = Secret tags,
                           PropReplaceOnChanges = ReplaceOnChanges tags,
                           PropDescription = index (Descriptions annotations) [] (Name tags),
                           PropDefault = index (Defaults annotations) AnyNil (Name tags),
                           PropDefaultInfo = None\<rparr>;
                   envs = index (DefaultEnvs annotations) [] (Name tags);
                   spec = (if length envs > 0
                           then spec\<lparr>PropDefaultInfo := Some \<lparr>Environment = envs\<rparr>\<rparr>
                           else spec)
               in fieldsLoop h typ indicatePlain annotations rest
                    (props(Name tags \<mapsto> spec)) required)))"

text \<open>\<^verbatim>\<open>typ.NumField()\<close> panics when \<open>typ\<close> is not a struct.\<close>

definition propertyListFromType ::
  "helpers \<Rightarrow> rtype \<Rightarrow> bool \<Rightarrow>
   ((string \<rightharpoonup> PropertySpec) \<times> string list \<times> error option) outcome" where
  "propertyListFromType h typ0 indicatePlain =
    (let typ = stripPointers typ0 in
     case getAnnotated (Some typ) of
       Panics p \<Rightarrow> Panics p
     | Returns annotations \<Rightarrow>
        (case Fields typ of
           None \<Rightarrow> Panics NotAStruct
         | Some fs \<Rightarrow> fieldsLoop h typ indicatePlain annotations fs Map.empty []))"

section \<open>getResourceSchema\<close>

record ResourceSpec =
  Properties :: "string \<rightharpoonup> PropertySpec"
  Description :: string
  Required :: "string list"
  InputProperties :: "string \<rightharpoonup> PropertySpec"
  RequiredInputs :: "string list"
  IsComponent :: bool

text \<open>
  \<^verbatim>\<open>reflect.TypeOf(r)\<close> for \<^verbatim>\<open>var r R\<close>: the zero value of an interface type is the
  nil interface, whose type descriptor is nil.
\<close>

definition TypeOfZero :: "rtype \<Rightarrow> rtype option" where
  "TypeOfZero R = (if Kind R = Interface then None else Some R)"

text \<open>
  The type parameters \<^verbatim>\<open>R\<close>, \<^verbatim>\<open>I\<close> and \<^verbatim>\<open>O\<close> are the arguments \<open>R\<close>, \<open>I\<close> and
  \<open>O'\<close>. \<^verbatim>\<open>multierror.Error\<close> is the list of its \<^verbatim>\<open>Errors\<close>.
\<close>

definition getResourceSchema ::
  "helpers \<Rightarrow> rtype \<Rightarrow> rtype \<Rightarrow> rtype \<Rightarrow> bool \<Rightarrow> (ResourceSpec \<times> error list) outcome" where
  "getResourceSchema h R I O' isComponent =
    (let errs = [] in
     case getAnnotated (TypeOfZero R) of
       Panics p \<Rightarrow> Panics p
     | Returns descriptions \<Rightarrow>
    (case propertyListFromType h (PointerTo O') isComponent of
       Panics p \<Rightarrow> Panics p
     | Returns (properties, required, err) \<Rightarrow>
    (let errs = (case err of
                   Some e \<Rightarrow> errs @ [CouldNotSerializeOutput O' e]
                 | None \<Rightarrow> errs)
     in
     case propertyListFromType h (PointerTo I) isComponent of
       Panics p \<Rightarrow> Panics p
     | Returns (inputProperties, requiredInputs, err) \<Rightarrow>
    (let errs = (case err of
                   Some e \<Rightarrow> errs @ [CouldNotSerializeInput I e]
                 | None \<Rightarrow> errs)
     in Returns
          (\<lparr>Properties = properties,
            Description = index (Descriptions descriptions) [] [],
            Required = required,
            InputProperties = inputProperties,
            RequiredInputs = requiredInputs,
            IsComponent = isComponent\<rparr>,
           errs)))))"

section \<open>Example types\<close>

text \<open>A type without methods has this method set.\<close>

definition noMethods :: methodset where
  "noMethods = MethodSet Absent emptyAnnotator Absent ([], None) Absent Absent Absent None []"

text \<open>
  A resource of another package: a struct whose pointer implements \<^verbatim>\<open>pulumi.Resource\<close>
  (it embeds \<^verbatim>\<open>pulumi.CustomResourceState\<close>) and that has no \<^verbatim>\<open>GetToken\<close>.
\<close>

definition foreignBucket :: rtype where
  "foreignBucket =
     Named ''Bucket''
       (MethodSet Absent emptyAnnotator Absent ([], None) ByPointer Absent Absent None [])
       (StructOf [])"

text \<open>
  The wrappers of the pulumi SDK for strings: \<^verbatim>\<open>pulumi.StringOutput\<close>, a struct whose
  \<^verbatim>\<open>ElementType()\<close> is \<^verbatim>\<open>string\<close>, and the interface \<^verbatim>\<open>pulumi.StringInput\<close> with
  its method \<^verbatim>\<open>ToStringOutput() StringOutput\<close>. And the SDK's \<^verbatim>\<open>pulumi.IDOutput\<close>,
  whose \<^verbatim>\<open>ElementType()\<close> is \<^verbatim>\<open>pulumi.ID\<close>, a string type that itself implements
  \<^verbatim>\<open>pulumi.Input\<close>. (The methods that return their own receiver type are left out of
  the finite trees; none of them is called on the paths below.)
\<close>

definition stringOutput :: rtype where
  "stringOutput =
     Named ''StringOutput''
       (MethodSet Absent emptyAnnotator Absent ([], None) Absent ByValue ByValue
          (Some (Basic String)) [])
       (StructOf [])"

definition stringInput :: rtype where
  "stringInput =
     Named ''StringInput''
       (MethodSet Absent emptyAnnotator Absent ([], None) Absent Absent ByValue None
          [(''ToStringOutput'', [stringOutput])])
       InterfaceOf"

definition idType :: rtype where
  "idType =
     Named ''ID''
       (MethodSet Absent emptyAnnotator Absent ([], None) Absent Absent ByValue None [])
       (Basic String)"

definition idOutput :: rtype where
  "idOutput =
     Named ''IDOutput''
       (MethodSet Absent emptyAnnotator Absent ([], None) Absent ByValue ByValue
          (Some idType) [])
       (StructOf [])"

text \<open>
  Helpers for the examples: no type is an enumeration, the token of a struct is made of its
  name, and the tag of a field is read as the exposed name, a field without tag being
  internal.
\<close>

definition exampleHelpers :: helpers where
  "exampleHelpers =
     \<lparr>isEnum = (\<lambda>t. None),
      introspect_GetToken = (\<lambda>t. (''pkg:index:'' @ TypeName t, None)),
      introspect_ParseTag = (\<lambda>f.
        (\<lparr>Name = sfTag f, Optional = False, Internal = (sfTag f = []), Secret = False,
          ReplaceOnChanges = False, ExternalType = []\<rparr>, None))\<rparr>"

text \<open>
  Structs for the field collector. \<open>brokenStruct\<close> has a map with integer keys, a string
  and an \<^verbatim>\<open>int8\<close>; \<open>lateError\<close> has the map after a string and an untagged channel;
  \<open>withInternal\<close> has a string and an untagged channel. \<open>invOutput\<close> is a named
  struct with one string field, as the output type of the repository's invoke test, and
  \<open>described\<close> a resource type whose hook describes it.
\<close>

definition brokenStruct :: rtype where
  "brokenStruct =
     StructOf
       [StructField ''A'' (MapOf (Basic Int') (Basic String)) ''a'',
        StructField ''B'' (Basic String) ''b'',
        StructField ''C'' (Basic Int8) ''c'']"

definition lateError :: rtype where
  "lateError =
     StructOf
       [StructField ''B'' (Basic String) ''b'',
        StructField ''hidden'' (ChanOf (Basic Int')) [],
        StructField ''A'' (MapOf (Basic Int') (Basic String)) ''a'',
        StructField ''C'' (Basic Int8) ''c'']"

definition invOutput :: rtype where
  "invOutput = Named ''invOutput'' noMethods (StructOf [StructField ''Out'' (Basic String) ''out''])"

definition withInternal :: rtype where
  "withInternal =
     StructOf
       [StructField ''Out'' (Basic String) ''out'',
        StructField ''hidden'' (ChanOf (Basic Int')) []]"

definition described :: rtype where
  "described =
     Named ''inv''
       (MethodSet ByValue (emptyAnnotator\<lparr>Descriptions := [[] \<mapsto> ''An inventory.'']\<rparr>)
          Absent ([], None) Absent Absent Absent None [])
       (StructOf [])"

text \<open>A string type with an annotation hook: \<^verbatim>\<open>NewAnnotator\<close> panics on it.\<close>

definition hookedString :: rtype where
  "hookedString =
     Named ''Label''
       (MethodSet ByValue (emptyAnnotator\<lparr>Descriptions := [[] \<mapsto> ''A label.'']\<rparr>)
          Absent ([], None) Absent Absent Absent None [])
       (Basic String)"

section \<open>Vocabulary of the properties\<close>

text \<open>
  The tag of a field; the error with which the loop body leaves the function at a field,
  if it does; and whether the loop body goes on to the next field.
\<close>

definition tagOf :: "helpers \<Rightarrow> field \<Rightarrow> FieldTag" where
  "tagOf h f = fst (introspect_ParseTag h f)"

definition fieldError :: "helpers \<Rightarrow> rtype \<Rightarrow> bool \<Rightarrow> field \<Rightarrow> error option" where
  "fieldError h typ indicatePlain f =
    (let fieldType = stripPointers (sfType f) in
     case introspect_ParseTag h f of
       (tags, Some err) \<Rightarrow> Some (InvalidFields (sfName f) typ (External err))
     | (tags, None) \<Rightarrow>
        if Internal tags then None
        else
          (case serializeTypeAsPropertyType h fieldType indicatePlain (ExternalType tags) of
             Returns (serialized, Some err) \<Rightarrow> Some (InvalidType fieldType typ (sfName f) err)
           | _ \<Rightarrow> None))"

definition fieldPasses :: "helpers \<Rightarrow> bool \<Rightarrow> field \<Rightarrow> bool" where
  "fieldPasses h indicatePlain f =
    (case introspect_ParseTag h f of
       (tags, Some err) \<Rightarrow> False
     | (tags, None) \<Rightarrow>
        Internal tags \<or>
        (case serializeTypeAsPropertyType h (stripPointers (sfType f)) indicatePlain
                (ExternalType tags) of
           Returns (serialized, None) \<Rightarrow> True
         | _ \<Rightarrow> False))"

text \<open>The annotation hook of a type: that of the type behind its pointers.\<close>

definition hookOf :: "rtype \<Rightarrow> Annotator option" where
  "hookOf t =
     (case stripPointers t of
        Named n ms u \<Rightarrow>
          if Kind u \<noteq> Interface \<and> annotated ms \<noteq> Absent then Some (annotation ms) else None
      | _ \<Rightarrow> None)"

section \<open>Properties of strings.Split and of the pointer loop\<close>

lemma splitFrom_none: "sep \<notin> set s \<Longrightarrow> splitFrom sep cur s = [cur @ s]"
  by (induction s arbitrary: cur) auto

lemma splitFrom_at:
  "sep \<notin> set a \<Longrightarrow> splitFrom sep cur (a @ sep # rest) = (cur @ a) # splitFrom sep [] rest"
  by (induction a arbitrary: cur) auto

lemma Split_locator:
  assumes "CHR '':'' \<notin> set a" and "CHR '':'' \<notin> set b" and "CHR '':'' \<notin> set c"
  shows "Split (a @ '':'' @ b @ '':'' @ c) (CHR '':'') = [a, b, c]"
  using assms by (simp add: Split_def splitFrom_at splitFrom_none)

lemma Split_head:
  assumes "CHR ''@'' \<notin> set a" and "CHR ''@'' \<notin> set b" 
  shows "Split (a @ ''@'' @ b) (CHR ''@'') = [a, b]"
  using assms by (simp add: Split_def splitFrom_at splitFrom_none)

lemma stripPointers_idem: "stripPointers (stripPointers t) = stripPointers t"
  by (induction t rule: stripPointers.induct) auto

lemma stripPointers_funpow: "stripPointers ((PointerTo ^^ n) t) = stripPointers t"
  by (induction n) auto

lemma walk_depends_on_stripped:
  assumes "stripPointers t = stripPointers t'"
  shows "serializeTypeAsPropertyType h t p e = serializeTypeAsPropertyType h t' p e"
proof -
  note unfold = serializeTypeAsPropertyType.simps
  have "serializeTypeAsPropertyType h t p e = serializeTypeAsPropertyType h (stripPointers t) p e"
    for t
    by (rule trans [OF unfold [of h t], OF trans [OF _ unfold [of h "stripPointers t", symmetric]]])
      (simp only: stripPointers_idem)
  from this [of t] this [of t'] assms show ?thesis
    by simp
qed

lemma resourceReferenceToken_Type:
  assumes "resourceReferenceToken t ext allow = Returns (tk, ok, err)"
  shows "Type tk = []"
  using assms
  by (auto simp: resourceReferenceToken_def Let_def refTo_def zeroTypeSpec_def
      split: if_splits outcome.splits prod.splits)

lemma resourceReferenceToken_unmatched:
  assumes "resourceReferenceToken t ext allow = Returns (tk, False, err)"
  shows "tk = zeroTypeSpec \<and> err = None"
  using assms
  by (auto simp: resourceReferenceToken_def Let_def 
      split: if_splits outcome.splits prod.splits)

lemma walk_result_cases:
  assumes "serializeTypeAsPropertyType h t indicatePlain extType = Returns (spec, None)"
  obtains (reference) "Type spec = []"
  | (switch) u wrapped where
      "underlyingType (Some (stripPointers t)) = Returns (Some u, wrapped, None)"
      "isEnum h (stripPointers t) = None"
      "resourceReferenceToken (stripPointers t) extType False = Returns (zeroTypeSpec, False, None)"
      "\<exists>tk. structReferenceToken h (stripPointers t) = (tk, False, None)"
proof -
  let ?x = "stripPointers t"
  note unfold = serializeTypeAsPropertyType.simps [of h t indicatePlain extType]
  show ?thesis
  proof (cases "isEnum h ?x")
    case (Some token)
    with assms have "spec = refTo (''#/types/'' @ token)"
      by (simp add: unfold)
    then show ?thesis
      by (intro reference) (simp add: refTo_def)
  next
    case None
    show ?thesis
    proof (cases "resourceReferenceToken ?x extType False")
      case (Panics p)
      with assms None show ?thesis
        by (simp add: unfold)
    next
      case (Returns r)
      obtain tk ok err where r: "r = (tk, ok, err)"
        by (cases r)
      show ?thesis
      proof (cases ok)
        case True
        with assms None Returns r have "spec = tk"
          by (simp add: unfold split: if_splits)
        with resourceReferenceToken_Type [of ?x extType False tk ok err] Returns r show ?thesis
          by (intro reference) simp
      next
        case False
        with Returns r have res: "resourceReferenceToken ?x extType False = Returns (zeroTypeSpec, False, None)"
          using resourceReferenceToken_unmatched [of ?x extType False tk err] by simp
        obtain tk' ok' err' where s: "structReferenceToken h ?x = (tk', ok', err')"
          by (cases "structReferenceToken h ?x")
        show ?thesis
        proof (cases ok')
          case True
          with assms None res s have "spec = refTo (''#/types/'' @ tk')"
            by (simp add: unfold split: if_splits)
          then show ?thesis
            by (intro reference) (simp add: refTo_def)
        next
          case False
          with s have err': "err' = None"
            by (auto simp: structReferenceToken_def split: if_splits prod.splits)
          show ?thesis
          proof (cases "underlyingType (Some ?x)")
            case (Panics p)
            with assms None res s False show ?thesis
              by (simp add: unfold)
          next
            case und: (Returns r')
            obtain u wrapped e where r': "r' = (u, wrapped, e)"
              by (cases r')
            from assms None res s False und r' obtain u' where "u = Some u'" and "e = None"
              by (cases u; cases e) (simp_all add: unfold)
            with und r' None res s False err' show ?thesis
              by (intro switch [of u' wrapped]) simp_all
          qed
        qed
      qed
    qed
  qed
qed

lemma underlyingType_stripped:
  assumes "underlyingType t = Returns (Some u, wrapped, e)"
  shows "stripPointers u = u"
  using assms
  by (auto simp: underlyingType_def Let_def stripPointers_idem
      split: option.splits if_splits outcome.splits list.splits)

section \<open>Evaluating the examples\<close>

lemma isEnum_example: "isEnum exampleHelpers t = None"
  by (simp add: exampleHelpers_def)

lemma GetToken_example:
  "introspect_GetToken exampleHelpers t = (''pkg:index:'' @ TypeName t, None)"
  by (simp add: exampleHelpers_def)

lemma ParseTag_example:
  "introspect_ParseTag exampleHelpers (StructField n t tag)
     = (\<lparr>Name = tag, Optional = False, Internal = (tag = []), Secret = False,
          ReplaceOnChanges = False, ExternalType = []\<rparr>, None)"
  by (simp add: exampleHelpers_def)

lemma walk_Basic:
  assumes "k \<noteq> Struct"
  shows "serializeTypeAsPropertyType exampleHelpers (Basic k) p [] =
    (if k = Map \<or> k = Array \<or> k = Slice then Panics NotAMapOrSequence
     else if k = Bool then primitive False p ''boolean''
     else if k = Int' \<or> k = Int64 \<or> k = Int32 then primitive False p ''integer''
     else if k = Float64 then primitive False p ''number''
     else if k = String then primitive False p ''string''
     else if k = Interface then Returns (refTo ''pulumi.json#/Any'', None)
     else Returns (zeroTypeSpec, Some (UnknownType (Basic k))))"
  unfolding serializeTypeAsPropertyType.simps [of exampleHelpers "Basic k"]
  using assms
  by (simp add: isEnum_example resourceReferenceToken_def structReferenceToken_def
      underlyingType_def)

lemma walk_MapOf_Int:
  "serializeTypeAsPropertyType exampleHelpers (MapOf (Basic Int') (Basic String)) p []
     = Returns (zeroTypeSpec, Some (MapKeysMustBeStrings (Basic Int')))"
  unfolding serializeTypeAsPropertyType.simps [of exampleHelpers "MapOf (Basic Int') (Basic String)"]
  by (simp add: isEnum_example resourceReferenceToken_def structReferenceToken_def
      underlyingType_def)

section \<open>Properties of getAnnotated\<close>

lemma stripPointers_Elem:
  "Kind t = Pointer \<Longrightarrow> Elem t = Some e \<Longrightarrow> stripPointers t = stripPointers e"
  by (induction t rule: stripPointers.induct) auto

lemma stripPointers_not_Pointer: "Kind t \<noteq> Pointer \<Longrightarrow> stripPointers t = t"
  by (cases t) auto

lemma stripPointers_no_Elem:
  "Kind t = Pointer \<Longrightarrow> Elem t = None \<Longrightarrow> Kind (stripPointers t) = Pointer"
  by (induction t rule: stripPointers.induct) auto

lemma getAnnotated_pointer_type:
  assumes "Kind (stripPointers t) \<noteq> Pointer"
  shows "(let t' = stripToSinglePointer t;
             iT = (if Kind t' = Pointer
                   then (case Elem t' of Some e \<Rightarrow> PointerTo e | None \<Rightarrow> t')
                   else t')
          in if Kind iT \<noteq> Pointer then PointerTo iT else iT) = PointerTo (stripPointers t)"
  using assms
proof (induction t rule: stripToSinglePointer.induct)
  case (1 t)
  show ?case
  proof (cases "Kind t = Pointer")
    case False
    then show ?thesis
      by (simp add: stripToSinglePointer.simps [of t] stripPointers_not_Pointer)
  next
    case True
    show ?thesis
    proof (cases "Elem t")
      case None
      with True "1.prems" show ?thesis
        by (simp add: stripPointers_no_Elem)
    next
      case (Some e)
      show ?thesis
      proof (cases "Kind e = Pointer")
        case False
        with True Some show ?thesis
          by (simp add: stripToSinglePointer.simps [of t] stripPointers_Elem [of t e]
              stripPointers_not_Pointer)
      next
        case e: True
        have "stripPointers t = stripPointers e"
          using True Some by (rule stripPointers_Elem)
        moreover have "stripToSinglePointer t = stripToSinglePointer e"
          using True Some e by (simp add: stripToSinglePointer.simps [of t])
        ultimately show ?thesis
          using "1.IH" [OF True Some e] "1.prems" by simp
      qed
    qed
  qed
qed

lemma getAnnotated_hookOf:
  assumes "Kind (stripPointers t) \<noteq> Pointer"
  shows "getAnnotated (Some t)
         = (case hookOf t of
              None \<Rightarrow> Returns emptyAnnotator
            | Some a \<Rightarrow>
                if Kind (stripPointers t) = Struct then Returns a
                else Panics (AssertionFailed ''FieldMatcher must contain a struct''))"
proof -
  have "getAnnotated (Some t) =
      (let iT = PointerTo (stripPointers t) in
       if Implements iT annotated then
         (case iT of
            PointerTo (Named n ms u) \<Rightarrow>
              if Kind u = Struct then Returns (annotation ms)
              else Panics (AssertionFailed ''FieldMatcher must contain a struct'')
          | _ \<Rightarrow> Returns emptyAnnotator)
       else Returns emptyAnnotator)"
    using getAnnotated_pointer_type [OF assms]
    by (simp add: getAnnotated_def Let_def)
  then show ?thesis
    by (cases "stripPointers t") (simp_all add: hookOf_def)
qed

lemma Fields_Struct: "Fields t = Some fs \<Longrightarrow> Kind t = Struct"
  by (induction t rule: Fields.induct) auto

lemma getAnnotated_struct:
  assumes "Kind (stripPointers t) = Struct"
  shows "\<exists>a. getAnnotated (Some t) = Returns a"
  using assms by (cases "hookOf t") (simp_all add: getAnnotated_hookOf)

lemma pass_invOutput:
  "propertyListFromType exampleHelpers (PointerTo invOutput) p
     = Returns ([''out'' \<mapsto> \<lparr>PropTypeSpec = TypeSpec ''string'' [] p None None,
                    PropSecret = False, PropReplaceOnChanges = False, PropDescription = [],
                    PropDefault = AnyNil, PropDefaultInfo = None\<rparr>],
                [''out''], None)"
  by (simp add: propertyListFromType_def invOutput_def noMethods_def getAnnotated_hookOf
      hookOf_def ParseTag_example walk_Basic primitive_def Let_def index_def emptyAnnotator_def)

lemma pass_withInternal:
  "propertyListFromType exampleHelpers withInternal p
     = Returns ([''out'' \<mapsto> \<lparr>PropTypeSpec = TypeSpec ''string'' [] p None None,
                    PropSecret = False, PropReplaceOnChanges = False, PropDescription = [],
                    PropDefault = AnyNil, PropDefaultInfo = None\<rparr>],
                [''out''], None)"
  by (simp add: propertyListFromType_def withInternal_def getAnnotated_hookOf
      hookOf_def ParseTag_example walk_Basic primitive_def Let_def index_def emptyAnnotator_def)

lemma pass_brokenStruct:
  "propertyListFromType exampleHelpers (PointerTo brokenStruct) p
     = Returns (Map.empty, [],
         Some (InvalidType (MapOf (Basic Int') (Basic String)) brokenStruct ''A''
                 (MapKeysMustBeStrings (Basic Int'))))"
  by (simp add: propertyListFromType_def brokenStruct_def getAnnotated_hookOf hookOf_def
      ParseTag_example walk_MapOf_Int Let_def)

section \<open>Properties of the field loop\<close>

lemma fieldsLoop_passes:
  assumes "\<forall>g \<in> set pre. fieldPasses h p g"
  shows "\<exists>props' required'. fieldsLoop h typ p ann (pre @ rest) props required
           = fieldsLoop h typ p ann rest props' required'"
  using assms
proof (induction pre arbitrary: props required)
  case Nil
  then show ?case by auto
next
  case (Cons g pre)
  then have g: "fieldPasses h p g" and pre: "\<forall>g \<in> set pre. fieldPasses h p g"
    by simp_all
  obtain tags err where parse: "introspect_ParseTag h g = (tags, err)"
    by (cases "introspect_ParseTag h g")
  from g parse have err: "err = None"
    by (cases err) (simp_all add: fieldPasses_def)
  show ?case
  proof (cases "Internal tags")
    case True
    with parse err Cons.IH [OF pre] show ?thesis
      by simp
  next
    case False
    with g parse err obtain serialized where
      "serializeTypeAsPropertyType h (stripPointers (sfType g)) p (ExternalType tags)
         = Returns (serialized, None)"
      by (auto simp: fieldPasses_def split: outcome.splits option.splits)
    with False parse err Cons.IH [OF pre] show ?thesis
      by (simp add: Let_def)
  qed
qed

lemma fieldsLoop_error:
  assumes "fieldError h typ p f = Some e"
  shows "fieldsLoop h typ p ann (f # post) props required = Returns (Map.empty, [], Some e)"
  using assms
  by (auto simp: fieldError_def Let_def split: prod.splits option.splits if_splits outcome.splits)

lemma fieldsLoop_success:
  assumes "fieldsLoop h typ p ann fs props0 required0 = Returns (props, required, None)"
  shows "dom props = dom props0 \<union> (\<lambda>f. Name (tagOf h f)) ` {f \<in> set fs. \<not> Internal (tagOf h f)}
       \<and> required = required0
           @ map (\<lambda>f. Name (tagOf h f))
               (filter (\<lambda>f. \<not> Internal (tagOf h f) \<and> \<not> Optional (tagOf h f)) fs)"
  using assms
proof (induction fs arbitrary: props0 required0)
  case Nil
  then show ?case by simp
next
  case (Cons f fs)
  obtain tags err where parse: "introspect_ParseTag h f = (tags, err)"
    by (cases "introspect_ParseTag h f")
  then have tags: "tagOf h f = tags"
    by (simp add: tagOf_def)
  from Cons.prems parse have err: "err = None"
    by (cases err) simp_all
  show ?case
  proof (cases "Internal tags")
    case True
    with Cons.prems parse err
    have "fieldsLoop h typ p ann fs props0 required0 = Returns (props, required, None)"
      by simp
    from Cons.IH [OF this] True tags show ?thesis
      by auto
  next
    case False
    from Cons.prems parse err False obtain serialized where
      walk: "serializeTypeAsPropertyType h (stripPointers (sfType f)) p (ExternalType tags)
               = Returns (serialized, None)"
      by (auto simp: Let_def split: outcome.splits option.splits)
    with Cons.prems parse err False obtain spec where
      "fieldsLoop h typ p ann fs (props0(Name tags \<mapsto> spec))
         (if \<not> Optional tags then required0 @ [Name tags] else required0)
       = Returns (props, required, None)"
      by (simp add: Let_def)
    from Cons.IH [OF this]
    have keys: "dom props = insert (Name tags) (dom props0)
                  \<union> (\<lambda>f. Name (tagOf h f)) ` {f \<in> set fs. \<not> Internal (tagOf h f)}"
      and req: "required = (if \<not> Optional tags then required0 @ [Name tags] else required0)
                  @ map (\<lambda>f. Name (tagOf h f))
                      (filter (\<lambda>f. \<not> Internal (tagOf h f) \<and> \<not> Optional (tagOf h f)) fs)"
      by auto
    have names: "(\<lambda>f. Name (tagOf h f)) ` {x \<in> set (f # fs). \<not> Internal (tagOf h x)}
                   = insert (Name tags)
                       ((\<lambda>f. Name (tagOf h f)) ` {x \<in> set fs. \<not> Internal (tagOf h x)})"
      using False tags by auto
    from keys req show ?thesis
      unfolding names using False tags by simp
  qed
qed

lemma fieldsLoop_skips_internal:
  assumes "fieldsLoop h typ p ann (pre @ f # post) props0 required0 = Returns (props, required, None)"
    and "Internal (tagOf h f)"
  shows "fieldsLoop h typ p ann (pre @ post) props0 required0 = Returns (props, required, None)"
  using assms
proof (induction pre arbitrary: props0 required0)
  case Nil
  obtain tags err where parse: "introspect_ParseTag h f = (tags, err)"
    by (cases "introspect_ParseTag h f")
  with Nil show ?case
    by (cases err) (simp_all add: tagOf_def)
next
  case (Cons g pre)
  obtain tags err where parse: "introspect_ParseTag h g = (tags, err)"
    by (cases "introspect_ParseTag h g")
  from Cons.prems(1) parse have err: "err = None"
    by (cases err) simp_all
  show ?case
  proof (cases "Internal tags")
    case True
    with Cons parse err show ?thesis
      by simp
  next
    case False
    from Cons.prems(1) parse err False obtain serialized where
      walk: "serializeTypeAsPropertyType h (stripPointers (sfType g)) p (ExternalType tags)
               = Returns (serialized, None)"
      by (auto simp: Let_def split: outcome.splits option.splits)
    with Cons parse err False show ?thesis
      by (auto simp: Let_def)
  qed
qed

lemma getResourceSchema_returns:
  assumes "getAnnotated (TypeOfZero R) = Returns a"
    and "propertyListFromType h (PointerTo O') isComponent = Returns (properties, required, errO)"
    and "propertyListFromType h (PointerTo I) isComponent
           = Returns (inputProperties, requiredInputs, errI)"
  shows "getResourceSchema h R I O' isComponent
         = Returns (\<lparr>Properties = properties,
                     Description = index (Descriptions a) [] [],
                     Required = required,
                     InputProperties = inputProperties,
                     RequiredInputs = requiredInputs,
                     IsComponent = isComponent\<rparr>,
                    (case errO of Some e \<Rightarrow> [CouldNotSerializeOutput O' e] | None \<Rightarrow> [])
                    @ (case errI of Some e \<Rightarrow> [CouldNotSerializeInput I e] | None \<Rightarrow> []))"
  using assms by (simp add: getResourceSchema_def split: option.splits)

lemma getResourceSchema_panics:
  "(\<exists>r. getResourceSchema h R I O' isComponent = Returns r)
   \<longleftrightarrow> (\<exists>a. getAnnotated (TypeOfZero R) = Returns a)
       \<and> (\<exists>r. propertyListFromType h (PointerTo O') isComponent = Returns r)
       \<and> (\<exists>r. propertyListFromType h (PointerTo I) isComponent = Returns r)"
  by (auto simp: getResourceSchema_def Let_def split: outcome.splits option.splits)

lemma getAnnotated_TypeOfZero:
  assumes "Kind (stripPointers R) \<noteq> Pointer"
  shows "(\<exists>a. getAnnotated (TypeOfZero R) = Returns a)
         \<longleftrightarrow> Kind R \<noteq> Interface \<and> (hookOf R = None \<or> Kind (stripPointers R) = Struct)"
proof (cases "Kind R = Interface")
  case True
  then show ?thesis
    by (simp add: TypeOfZero_def getAnnotated_def)
next
  case False
  then show ?thesis
    by (cases "hookOf R") (simp_all add: TypeOfZero_def getAnnotated_hookOf [OF assms])
qed

section \<open>External resource references\<close>

text \<open>
  C6. A type that implements \<^verbatim>\<open>pulumi.Resource\<close> (itself or through its pointer) but
  not \<^verbatim>\<open>sch.Resource\<close> is an external resource. With an empty \<^verbatim>\<open>type=\<close> tag its
  classification is the error "missing type= tag on foreign resource"; when the caller allows
  a missing tag, the same input is classified with the empty \<^verbatim>\<open>TypeSpec\<close> and no error.
\<close>

theorem missing_locator:
  assumes "\<not> Implements t schResource" and "\<not> Implements (PointerTo t) schResource"
    and "Implements t pulumiResource \<or> Implements (PointerTo t) pulumiResource"
  shows "resourceReferenceToken t [] False = Returns (zeroTypeSpec, True, Some (MissingTypeTag t))
       \<and> resourceReferenceToken t [] True = Returns (zeroTypeSpec, True, None)"
  using assms by (simp add: resourceReferenceToken_def)

theorem missing_locator_witness:
  "resourceReferenceToken foreignBucket [] False
     = Returns (zeroTypeSpec, True, Some (MissingTypeTag foreignBucket))
   \<and> resourceReferenceToken foreignBucket [] True = Returns (zeroTypeSpec, True, None)"
proof -
  have a: "\<not> Implements foreignBucket schResource"
    and b: "\<not> Implements (PointerTo foreignBucket) schResource"
    and c: "Implements foreignBucket pulumiResource
         \<or> Implements (PointerTo foreignBucket) pulumiResource"
    by (simp_all add: foreignBucket_def)
  show ?thesis
    by (rule missing_locator [OF a b c])
qed

text \<open>
  C7. For an external resource with a non-empty \<^verbatim>\<open>type=\<close> tag: when the tag does not
  split at \<^verbatim>\<open>:\<close> into exactly three segments, or its first segment does not split at
  \<^verbatim>\<open>@\<close> into exactly two, an assertion fails and the call panics, so nothing is
  returned; and for every tag \<^verbatim>\<open>pkg@ver:module:name\<close> whose parts hold no further
  separator the call returns the reference
  \<^verbatim>\<open>/pkg/ver/schema.json#/resources/pkg:module:name\<close> without error.
\<close>

theorem locator_contract:
  assumes "\<not> Implements t schResource" and "\<not> Implements (PointerTo t) schResource"
    and "Implements t pulumiResource \<or> Implements (PointerTo t) pulumiResource"
    and "extTag \<noteq> []"
  shows "(length (Split extTag (CHR '':'')) \<noteq> 3
            \<or> length (Split (Split extTag (CHR '':'') ! 0) (CHR ''@'')) \<noteq> 2
          \<longrightarrow> (\<exists>msg. resourceReferenceToken t extTag allow = Panics (AssertionFailed msg)))
       \<and> (\<forall>pkg ver module name.
             extTag = pkg @ ''@'' @ ver @ '':'' @ module @ '':'' @ name
             \<and> CHR '':'' \<notin> set (pkg @ ver @ module @ name) \<and> CHR ''@'' \<notin> set (pkg @ ver)
           \<longrightarrow> resourceReferenceToken t extTag allow
                 = Returns (refTo (''/'' @ pkg @ ''/'' @ ver @ ''/schema.json#/resources/''
                                   @ pkg @ '':'' @ module @ '':'' @ name), True, None))"
proof (intro conjI impI allI)
  assume "length (Split extTag (CHR '':'')) \<noteq> 3
            \<or> length (Split (Split extTag (CHR '':'') ! 0) (CHR ''@'')) \<noteq> 2"
  with assms show "\<exists>msg. resourceReferenceToken t extTag allow = Panics (AssertionFailed msg)"
    by (auto simp: resourceReferenceToken_def Let_def)
next
  fix pkg ver module name
  assume wf: "extTag = pkg @ ''@'' @ ver @ '':'' @ module @ '':'' @ name
             \<and> CHR '':'' \<notin> set (pkg @ ver @ module @ name) \<and> CHR ''@'' \<notin> set (pkg @ ver)"
  then have parts: "Split extTag (CHR '':'') = [pkg @ ''@'' @ ver, module, name]"
    using Split_locator [of "pkg @ ''@'' @ ver" module name] by simp
  from wf have head: "Split (pkg @ ''@'' @ ver) (CHR ''@'') = [pkg, ver]"
    using Split_head [of pkg ver] by simp
  from assms show "resourceReferenceToken t extTag allow
                 = Returns (refTo (''/'' @ pkg @ ''/'' @ ver @ ''/schema.json#/resources/''
                                   @ pkg @ '':'' @ module @ '':'' @ name), True, None)"
    by (simp add: resourceReferenceToken_def Let_def parts head [simplified])
qed

theorem locator_contract_witness:
  "resourceReferenceToken foreignBucket ''aws@6.0.0:s3:Bucket'' False
     = Returns (refTo ''/aws/6.0.0/schema.json#/resources/aws:s3:Bucket'', True, None)
   \<and> (\<exists>msg. resourceReferenceToken foreignBucket ''aws:s3:Bucket'' False
               = Panics (AssertionFailed msg))
   \<and> (\<exists>msg. resourceReferenceToken foreignBucket ''aws@6.0.0:Bucket'' False
               = Panics (AssertionFailed msg))"
proof -
  have a: "\<not> Implements foreignBucket schResource"
    and b: "\<not> Implements (PointerTo foreignBucket) schResource"
    and c: "Implements foreignBucket pulumiResource
         \<or> Implements (PointerTo foreignBucket) pulumiResource"
    by (simp_all add: foreignBucket_def)
  have good: "''aws@6.0.0:s3:Bucket'' = ''aws'' @ ''@'' @ ''6.0.0'' @ '':'' @ ''s3'' @ '':'' @ ''Bucket''
      \<and> CHR '':'' \<notin> set (''aws'' @ ''6.0.0'' @ ''s3'' @ ''Bucket'')
      \<and> CHR ''@'' \<notin> set (''aws'' @ ''6.0.0'')"
    by simp
  have bad1: "length (Split ''aws:s3:Bucket'' (CHR '':'')) \<noteq> 3
            \<or> length (Split (Split ''aws:s3:Bucket'' (CHR '':'') ! 0) (CHR ''@'')) \<noteq> 2"
    by (simp add: Split_def)
  have bad2: "length (Split ''aws@6.0.0:Bucket'' (CHR '':'')) \<noteq> 3
            \<or> length (Split (Split ''aws@6.0.0:Bucket'' (CHR '':'') ! 0) (CHR ''@'')) \<noteq> 2"
    by (simp add: Split_def)
  have d: "''aws@6.0.0:s3:Bucket'' \<noteq> []" and d1: "''aws:s3:Bucket'' \<noteq> []"
    and d2: "''aws@6.0.0:Bucket'' \<noteq> []"
    by simp_all
  have 1: "resourceReferenceToken foreignBucket ''aws@6.0.0:s3:Bucket'' False
     = Returns (refTo (''/'' @ ''aws'' @ ''/'' @ ''6.0.0'' @ ''/schema.json#/resources/''
                                   @ ''aws'' @ '':'' @ ''s3'' @ '':'' @ ''Bucket''), True, None)"
    by (rule locator_contract [OF a b c d, of False, THEN conjunct2, rule_format,
          of "''aws''" "''6.0.0''" "''s3''" "''Bucket''", OF good])
  have 2: "\<exists>msg. resourceReferenceToken foreignBucket ''aws:s3:Bucket'' False
               = Panics (AssertionFailed msg)"
    by (rule locator_contract [OF a b c d1, of False, THEN conjunct1, rule_format, OF bad1])
  have 3: "\<exists>msg. resourceReferenceToken foreignBucket ''aws@6.0.0:Bucket'' False
               = Panics (AssertionFailed msg)"
    by (rule locator_contract [OF a b c d2, of False, THEN conjunct1, rule_format, OF bad2])
  from 1 2 3 show ?thesis by simp
qed


section \<open>Pointers\<close>

text \<open>
  C9. Walking a type behind any number of pointers gives exactly the result of walking the
  type itself, be it a \<^verbatim>\<open>TypeSpec\<close>, an error or a panic, for every plain flag and
  every \<^verbatim>\<open>type=\<close> tag.
\<close>

theorem pointer_invariance:
  "serializeTypeAsPropertyType h ((PointerTo ^^ n) t) indicatePlain extType
     = serializeTypeAsPropertyType h t indicatePlain extType"
  by (rule walk_depends_on_stripped) (rule stripPointers_funpow)

theorem pointer_invariance_witness:
  "serializeTypeAsPropertyType exampleHelpers (PointerTo (PointerTo (MapOf (Basic Int') (Basic String)))) True []
     = serializeTypeAsPropertyType exampleHelpers (MapOf (Basic Int') (Basic String)) True []"
  using pointer_invariance [of exampleHelpers "Suc (Suc 0)" "MapOf (Basic Int') (Basic String)" True "[]"]
  by simp

section \<open>The kind switch of the walker\<close>

text \<open>
  C3, as the source has it. The claim gives every primitive and every container result
  \<open>Plain = plain-intent \<and> \<not> wrapped\<close>. In the source only the closure \<^verbatim>\<open>primitive\<close>
  sets \<^verbatim>\<open>Plain\<close>: a result of type boolean, integer, number or string carries
  \<open>Plain = indicatePlain \<and> \<not> wrapped\<close>, where \<open>wrapped\<close> is the flag that
  \<^verbatim>\<open>underlyingType\<close> returned for the type; a result of type array or object carries
  \<open>Plain = False\<close>, whatever the flags are.
\<close>

theorem plain_flag:
  assumes "serializeTypeAsPropertyType h t indicatePlain extType = Returns (spec, None)"
  shows "(Type spec \<in> {''boolean'', ''integer'', ''number'', ''string''} \<longrightarrow>
           (\<exists>u wrapped. underlyingType (Some (stripPointers t)) = Returns (u, wrapped, None)
              \<and> Plain spec = (indicatePlain \<and> \<not> wrapped)))
       \<and> (Type spec \<in> {''array'', ''object''} \<longrightarrow> Plain spec = False)"
  using assms
proof (cases rule: walk_result_cases)
  case reference
  then show ?thesis by simp
next
  case (switch u wrapped)
  then obtain tk where s: "structReferenceToken h (stripPointers t) = (tk, False, None)"
    by blast
  have "Type spec \<in> {''boolean'', ''integer'', ''number'', ''string''} \<longrightarrow>
          Plain spec = (indicatePlain \<and> \<not> wrapped)"
    using assms switch(1-3) s
    unfolding serializeTypeAsPropertyType.simps [of h t indicatePlain extType]
    by (auto simp: primitive_def refTo_def zeroTypeSpec_def
        split: if_splits option.splits outcome.splits prod.splits)
  moreover have "Type spec \<in> {''array'', ''object''} \<longrightarrow> Plain spec = False"
    using assms switch(1-3) s
    unfolding serializeTypeAsPropertyType.simps [of h t indicatePlain extType]
    by (auto simp: primitive_def refTo_def zeroTypeSpec_def
        split: if_splits option.splits outcome.splits prod.splits)
  ultimately show ?thesis
    using switch(1) by blast
qed


theorem plain_flag_witness:
  "serializeTypeAsPropertyType exampleHelpers stringOutput True []
     = Returns (TypeSpec ''string'' [] False None None, None)
   \<and> (\<exists>u wrapped. underlyingType (Some (stripPointers stringOutput)) = Returns (u, wrapped, None)
         \<and> Plain (TypeSpec ''string'' [] False None None) = (True \<and> \<not> wrapped))"
proof -
  have w: "serializeTypeAsPropertyType exampleHelpers stringOutput True []
     = Returns (TypeSpec ''string'' [] False None None, None)"
    unfolding serializeTypeAsPropertyType.simps [of exampleHelpers stringOutput]
    by (simp add: stringOutput_def isEnum_example resourceReferenceToken_def
        structReferenceToken_def underlyingType_def callOnZero_def zeroValueIs_def primitive_def)
  from plain_flag [OF w] w show ?thesis
    by simp
qed

text \<open>
  C3 as stated fails on a slice of strings walked with the plain flag set: nothing is
  unwrapped, and the array result is not plain.
\<close>

theorem container_plain_counterexample:
  "serializeTypeAsPropertyType exampleHelpers (SliceOf (Basic String)) True []
     = Returns (TypeSpec ''array'' [] False None (Some (TypeSpec ''string'' [] True None None)), None)
   \<and> underlyingType (Some (stripPointers (SliceOf (Basic String))))
     = Returns (Some (SliceOf (Basic String)), False, None)"
  unfolding serializeTypeAsPropertyType.simps [of exampleHelpers "SliceOf (Basic String)"]
  by (simp add: isEnum_example resourceReferenceToken_def structReferenceToken_def
      underlyingType_def walk_Basic primitive_def)

text \<open>
  C4, as the source has it. The claim maps every integer and floating-point kind to a
  primitive. The switch names \<^verbatim>\<open>Bool\<close>, \<^verbatim>\<open>Int\<close>, \<^verbatim>\<open>Int64\<close>, \<^verbatim>\<open>Int32\<close>, \<^verbatim>\<open>Float64\<close>
  and \<^verbatim>\<open>String\<close>: for a type that is no enumeration, resource or struct reference and
  whose unwrapped base type has one of these kinds, the walker returns "boolean",
  "integer", "number" or "string"; for the other integer widths, the unsigned kinds and
  \<^verbatim>\<open>Float32\<close> it returns the error "unknown type".
\<close>

theorem primitive_kinds:
  assumes "isEnum h (stripPointers t) = None"
    and "resourceReferenceToken (stripPointers t) extType False = Returns (zeroTypeSpec, False, None)"
    and "structReferenceToken h (stripPointers t) = ([], False, None)"
    and "underlyingType (Some (stripPointers t)) = Returns (Some u, wrapped, None)"
  shows "(Kind u = Bool \<longrightarrow>
            serializeTypeAsPropertyType h t indicatePlain extType
              = Returns (TypeSpec ''boolean'' [] (\<not> wrapped \<and> indicatePlain) None None, None))
       \<and> (Kind u = Int' \<or> Kind u = Int64 \<or> Kind u = Int32 \<longrightarrow>
            serializeTypeAsPropertyType h t indicatePlain extType
              = Returns (TypeSpec ''integer'' [] (\<not> wrapped \<and> indicatePlain) None None, None))
       \<and> (Kind u = Float64 \<longrightarrow>
            serializeTypeAsPropertyType h t indicatePlain extType
              = Returns (TypeSpec ''number'' [] (\<not> wrapped \<and> indicatePlain) None None, None))
       \<and> (Kind u = String \<longrightarrow>
            serializeTypeAsPropertyType h t indicatePlain extType
              = Returns (TypeSpec ''string'' [] (\<not> wrapped \<and> indicatePlain) None None, None))
       \<and> (Kind u \<in> {Int8, Int16, Uint, Uint8, Uint16, Uint32, Uint64, Uintptr, Float32} \<longrightarrow>
            serializeTypeAsPropertyType h t indicatePlain extType
              = Returns (zeroTypeSpec, Some (UnknownType u)))"
  unfolding serializeTypeAsPropertyType.simps [of h t indicatePlain extType]
  by (simp add: assms primitive_def)


theorem primitive_kinds_witness:
  "serializeTypeAsPropertyType exampleHelpers (Basic Int64) True []
     = Returns (TypeSpec ''integer'' [] True None None, None)
   \<and> serializeTypeAsPropertyType exampleHelpers (Basic Uint16) True []
     = Returns (zeroTypeSpec, Some (UnknownType (Basic Uint16)))"
proof -
  have reach: "isEnum exampleHelpers (stripPointers (Basic k)) = None"
    "resourceReferenceToken (stripPointers (Basic k)) [] False = Returns (zeroTypeSpec, False, None)"
    "structReferenceToken exampleHelpers (stripPointers (Basic k)) = ([], False, None)"
    "underlyingType (Some (stripPointers (Basic k))) = Returns (Some (Basic k), False, None)"
    if "k \<noteq> Struct" for k
    using that
    by (simp_all add: isEnum_example resourceReferenceToken_def structReferenceToken_def
        underlyingType_def)
  have a: "Int64 \<noteq> Struct" and b: "Uint16 \<noteq> Struct"
    by simp_all
  from primitive_kinds [OF reach [OF a], of True] primitive_kinds [OF reach [OF b], of True]
  show ?thesis by simp
qed

text \<open>
  C4 as stated fails for \<^verbatim>\<open>int8\<close>, \<^verbatim>\<open>uint\<close> and \<^verbatim>\<open>float32\<close>: the walker returns the
  error "unknown type" for each.
\<close>

theorem integer_widths_counterexample:
  "serializeTypeAsPropertyType exampleHelpers (Basic Int8) False []
     = Returns (zeroTypeSpec, Some (UnknownType (Basic Int8)))
   \<and> serializeTypeAsPropertyType exampleHelpers (Basic Uint) False []
     = Returns (zeroTypeSpec, Some (UnknownType (Basic Uint)))
   \<and> serializeTypeAsPropertyType exampleHelpers (Basic Float32) False []
     = Returns (zeroTypeSpec, Some (UnknownType (Basic Float32)))"
  by (simp add: walk_Basic)

section \<open>Resolving wrappers\<close>

text \<open>
  C5, as the source has it. \<^verbatim>\<open>underlyingType\<close> unwraps one layer. When it resolves a type
  to the base type \<open>u\<close>, resolving \<open>u\<close> again returns \<open>u\<close> with \<open>wrapped = false\<close>
  exactly when \<open>u\<close> is not itself a wrapper: \<open>u\<close> does not implement \<^verbatim>\<open>pulumi.Input\<close>
  and the pointer to \<open>u\<close> does not implement \<^verbatim>\<open>pulumi.Output\<close>. The witness is the
  pointer to \<^verbatim>\<open>pulumi.StringInput\<close>, resolved twice.
\<close>

theorem resolution_idempotent:
  assumes "underlyingType t = Returns (Some u, wrapped, None)"
  shows "underlyingType (Some u) = Returns (Some u, False, None)
         \<longleftrightarrow> \<not> Implements u pulumiInput \<and> \<not> Implements (PointerTo u) pulumiOutput"
  using underlyingType_stripped [OF assms]
  by (auto simp: underlyingType_def Let_def
      split: option.splits if_splits outcome.splits list.splits)

theorem resolution_idempotent_witness:
  "underlyingType (Some (PointerTo stringInput)) = Returns (Some (Basic String), True, None)
   \<and> underlyingType (Some (Basic String)) = Returns (Some (Basic String), False, None)"
proof -
  have r: "underlyingType (Some (PointerTo stringInput)) = Returns (Some (Basic String), True, None)"
    by (simp add: underlyingType_def stringInput_def stringOutput_def HasSuffix_def TrimSuffix_def
        zeroValueIs_def)
  have "\<not> Implements (Basic String) pulumiInput
        \<and> \<not> Implements (PointerTo (Basic String)) pulumiOutput"
    by simp
  with resolution_idempotent [OF r] r show ?thesis
    by simp
qed

text \<open>
  C5 as stated fails on \<^verbatim>\<open>pulumi.IDOutput\<close>: it resolves to \<^verbatim>\<open>pulumi.ID\<close>, and resolving
  \<^verbatim>\<open>pulumi.ID\<close> again returns the error that an input type must end in "Input".
\<close>

theorem resolution_counterexample:
  "underlyingType (Some idOutput) = Returns (Some idType, True, None)
   \<and> underlyingType (Some idType) = Returns (None, False, Some (InputWithoutSuffix ''ID''))"
  by (simp add: underlyingType_def idOutput_def idType_def callOnZero_def zeroValueIs_def
      HasSuffix_def)


section \<open>Collecting the fields\<close>

text \<open>
  C1, as the source has it. The claim lets a failing field drop out alone and has the
  collector return the map, the list and every field error. In the source both error exits
  of the loop return at once: when the fields before \<open>f\<close> pass and \<open>f\<close> fails (its tag
  does not parse, or it is exposed and the walker returns an error for its type), the
  collector returns the nil map, the nil list and the error of \<open>f\<close> alone, whatever the
  fields after \<open>f\<close> are.
\<close>

theorem first_field_error_aborts:
  assumes "Fields (stripPointers typ) = Some (pre @ f # post)"
    and "\<forall>g \<in> set pre. fieldPasses h indicatePlain g"
    and "fieldError h (stripPointers typ) indicatePlain f = Some e"
  shows "propertyListFromType h typ indicatePlain = Returns (Map.empty, [], Some e)"
proof -
  have "Kind (stripPointers (stripPointers typ)) = Struct"
    using Fields_Struct [OF assms(1)] by (simp add: stripPointers_idem)
  then obtain ann where ann: "getAnnotated (Some (stripPointers typ)) = Returns ann"
    using getAnnotated_struct by blast
  obtain props' required' where
    "fieldsLoop h (stripPointers typ) indicatePlain ann (pre @ f # post) Map.empty []
       = fieldsLoop h (stripPointers typ) indicatePlain ann (f # post) props' required'"
    using fieldsLoop_passes [OF assms(2)] by blast
  then have "fieldsLoop h (stripPointers typ) indicatePlain ann (pre @ f # post) Map.empty []
       = Returns (Map.empty, [], Some e)"
    by (simp only: fieldsLoop_error [OF assms(3)])
  with ann assms(1) show ?thesis
    by (simp add: propertyListFromType_def)
qed

theorem first_field_error_aborts_witness:
  "propertyListFromType exampleHelpers lateError False
     = Returns (Map.empty, [],
         Some (InvalidType (MapOf (Basic Int') (Basic String)) lateError ''A''
                 (MapKeysMustBeStrings (Basic Int'))))"
proof -
  let ?pre = "[StructField ''B'' (Basic String) ''b'', StructField ''hidden'' (ChanOf (Basic Int')) []]"
  let ?f = "StructField ''A'' (MapOf (Basic Int') (Basic String)) ''a''"
  let ?post = "[StructField ''C'' (Basic Int8) ''c'']"
  have a: "Fields (stripPointers lateError) = Some (?pre @ ?f # ?post)"
    by (simp add: lateError_def)
  have b: "\<forall>g \<in> set ?pre. fieldPasses exampleHelpers False g"
    by (simp add: fieldPasses_def ParseTag_example walk_Basic primitive_def)
  have c: "fieldError exampleHelpers (stripPointers lateError) False ?f
        = Some (InvalidType (MapOf (Basic Int') (Basic String)) lateError ''A''
                 (MapKeysMustBeStrings (Basic Int')))"
    by (simp add: fieldError_def ParseTag_example walk_MapOf_Int lateError_def Let_def)
  show ?thesis
    by (rule first_field_error_aborts [OF a b c])
qed

text \<open>
  C1 as stated fails on \<open>brokenStruct\<close>: field \<^verbatim>\<open>A\<close> fails, and the result holds neither
  the property of the valid field \<^verbatim>\<open>B\<close> nor the error of field \<^verbatim>\<open>C\<close>.
\<close>

theorem fail_fast_counterexample:
  "propertyListFromType exampleHelpers brokenStruct False
     = Returns (Map.empty, [],
         Some (InvalidType (MapOf (Basic Int') (Basic String)) brokenStruct ''A''
                 (MapKeysMustBeStrings (Basic Int'))))
   \<and> fieldPasses exampleHelpers False (StructField ''B'' (Basic String) ''b'')
   \<and> fieldError exampleHelpers brokenStruct False (StructField ''C'' (Basic Int8) ''c'')
     = Some (InvalidType (Basic Int8) brokenStruct ''C'' (UnknownType (Basic Int8)))"
  by (simp add: propertyListFromType_def brokenStruct_def getAnnotated_hookOf hookOf_def
      ParseTag_example walk_MapOf_Int walk_Basic fieldPasses_def fieldError_def primitive_def
      Let_def)


text \<open>
  C8. When the collector succeeds on a type, the type is a struct behind its pointers; the
  keys of the property map are exactly the tag names of the fields that are not internal;
  the required list is the tag names of the fields that are neither internal nor optional,
  in declaration order, so all of them are keys; and an internal field contributes nothing,
  whatever its type: the loop over the fields without it ends in the same map and list.
\<close>

theorem exposed_fields_only:
  assumes "propertyListFromType h typ indicatePlain = Returns (props, required, None)"
  shows "\<exists>fs ann. Fields (stripPointers typ) = Some fs
       \<and> getAnnotated (Some (stripPointers typ)) = Returns ann
       \<and> dom props = (\<lambda>f. Name (tagOf h f)) ` {f \<in> set fs. \<not> Internal (tagOf h f)}
       \<and> set required \<subseteq> dom props
       \<and> required = map (\<lambda>f. Name (tagOf h f))
                      (filter (\<lambda>f. \<not> Internal (tagOf h f) \<and> \<not> Optional (tagOf h f)) fs)
       \<and> (\<forall>pre f post. fs = pre @ f # post \<and> Internal (tagOf h f) \<longrightarrow>
             fieldsLoop h (stripPointers typ) indicatePlain ann (pre @ post) Map.empty []
               = Returns (props, required, None))"
proof -
  from assms obtain ann fs where ann: "getAnnotated (Some (stripPointers typ)) = Returns ann"
    and fs: "Fields (stripPointers typ) = Some fs"
    and loop: "fieldsLoop h (stripPointers typ) indicatePlain ann fs Map.empty []
                 = Returns (props, required, None)"
    by (auto simp: propertyListFromType_def Let_def split: outcome.splits option.splits)
  from fieldsLoop_success [OF loop]
  have keys: "dom props = (\<lambda>f. Name (tagOf h f)) ` {f \<in> set fs. \<not> Internal (tagOf h f)}"
    and req: "required = map (\<lambda>f. Name (tagOf h f))
                      (filter (\<lambda>f. \<not> Internal (tagOf h f) \<and> \<not> Optional (tagOf h f)) fs)"
    by simp_all
  have sub: "set required \<subseteq> dom props"
    unfolding keys req by auto
  have skip: "\<forall>pre f post. fs = pre @ f # post \<and> Internal (tagOf h f) \<longrightarrow>
             fieldsLoop h (stripPointers typ) indicatePlain ann (pre @ post) Map.empty []
               = Returns (props, required, None)"
    using loop fieldsLoop_skips_internal by blast
  from fs ann keys sub req skip show ?thesis
    by blast
qed


theorem exposed_fields_only_witness:
  "\<exists>props. propertyListFromType exampleHelpers withInternal False
              = Returns (props, [''out''], None)
     \<and> dom props = {''out''}
     \<and> fieldsLoop exampleHelpers withInternal False emptyAnnotator
          [StructField ''Out'' (Basic String) ''out''] Map.empty []
        = Returns (props, [''out''], None)"
proof -
  let ?out = "StructField ''Out'' (Basic String) ''out''"
  let ?hidden = "StructField ''hidden'' (ChanOf (Basic Int')) []"
  from exposed_fields_only [OF pass_withInternal [of False]]
  obtain fs ann props where fs: "Fields (stripPointers withInternal) = Some fs"
    and ann: "getAnnotated (Some (stripPointers withInternal)) = Returns ann"
    and pass: "propertyListFromType exampleHelpers withInternal False
                 = Returns (props, [''out''], None)"
    and keys: "dom props = (\<lambda>f. Name (tagOf exampleHelpers f))
                 ` {f \<in> set fs. \<not> Internal (tagOf exampleHelpers f)}"
    and skip: "\<forall>pre f post. fs = pre @ f # post \<and> Internal (tagOf exampleHelpers f) \<longrightarrow>
             fieldsLoop exampleHelpers (stripPointers withInternal) False ann (pre @ post)
               Map.empty []
               = Returns (props, [''out''], None)"
    using pass_withInternal [of False] by blast
  from fs have fs': "fs = [?out, ?hidden]"
    by (simp add: withInternal_def)
  from ann have ann': "ann = emptyAnnotator"
    by (simp add: withInternal_def getAnnotated_hookOf hookOf_def)
  have strip: "stripPointers withInternal = withInternal"
    by (simp add: withInternal_def)
  have "{f \<in> set fs. \<not> Internal (tagOf exampleHelpers f)} = {?out}"
    unfolding fs' by (auto simp: tagOf_def ParseTag_example)
  with keys have 1: "dom props = {''out''}"
    by (simp add: tagOf_def ParseTag_example)
  have "fs = [?out] @ ?hidden # [] \<and> Internal (tagOf exampleHelpers ?hidden)"
    by (simp add: fs' tagOf_def ParseTag_example)
  with skip have "fieldsLoop exampleHelpers (stripPointers withInternal) False ann ([?out] @ [])
               Map.empty [] = Returns (props, [''out''], None)"
    by blast
  with pass 1 show ?thesis
    by (auto simp: ann' strip)
qed

section \<open>Assembling the schema\<close>



text \<open>
  C10. \<^verbatim>\<open>getResourceSchema\<close> returns exactly when the annotator of \<open>R\<close> is obtained and
  neither pass panics; the annotator of \<open>R\<close> is obtained exactly when \<open>R\<close> is not an
  interface type and, if \<open>R\<close> has a hook, \<open>R\<close> is a struct behind its pointers. Whenever
  \<^verbatim>\<open>getResourceSchema\<close> returns, with or without errors of the passes, the
  description of the schema is the entry at the empty key of the annotator of \<open>R\<close>, which
  does not depend on \<open>I\<close> or \<open>O\<close>: the entry that the hook of \<open>R\<close> (behind its
  pointers) left there, and the empty string when \<open>R\<close> has no hook.
\<close>

theorem description_from_resource_type:
  "((\<exists>r. getResourceSchema h R I O' isComponent = Returns r)
      \<longleftrightarrow> (\<exists>a. getAnnotated (TypeOfZero R) = Returns a)
          \<and> (\<exists>r. propertyListFromType h (PointerTo O') isComponent = Returns r)
          \<and> (\<exists>r. propertyListFromType h (PointerTo I) isComponent = Returns r))
   \<and> (Kind (stripPointers R) \<noteq> Pointer \<longrightarrow>
         ((\<exists>a. getAnnotated (TypeOfZero R) = Returns a)
            \<longleftrightarrow> Kind R \<noteq> Interface \<and> (hookOf R = None \<or> Kind (stripPointers R) = Struct)))
   \<and> (\<forall>schema errs. getResourceSchema h R I O' isComponent = Returns (schema, errs) \<longrightarrow>
         (\<exists>a. getAnnotated (Some R) = Returns a
               \<and> Description schema = index (Descriptions a) [] [])
         \<and> (Kind (stripPointers R) \<noteq> Pointer \<longrightarrow>
               Description schema
                 = (case hookOf R of Some a \<Rightarrow> index (Descriptions a) [] [] | None \<Rightarrow> [])))"
proof (intro conjI allI impI)
  show "(\<exists>r. getResourceSchema h R I O' isComponent = Returns r)
      \<longleftrightarrow> (\<exists>a. getAnnotated (TypeOfZero R) = Returns a)
          \<and> (\<exists>r. propertyListFromType h (PointerTo O') isComponent = Returns r)
          \<and> (\<exists>r. propertyListFromType h (PointerTo I) isComponent = Returns r)"
    by (rule getResourceSchema_panics)
next
  assume "Kind (stripPointers R) \<noteq> Pointer"
  then show "(\<exists>a. getAnnotated (TypeOfZero R) = Returns a)
            \<longleftrightarrow> Kind R \<noteq> Interface \<and> (hookOf R = None \<or> Kind (stripPointers R) = Struct)"
    by (rule getAnnotated_TypeOfZero)
next
  fix schema errs
  assume ret: "getResourceSchema h R I O' isComponent = Returns (schema, errs)"
  then obtain a ro ri where a': "getAnnotated (TypeOfZero R) = Returns a"
    and "propertyListFromType h (PointerTo O') isComponent = Returns ro"
    and "propertyListFromType h (PointerTo I) isComponent = Returns ri"
    using getResourceSchema_panics [of h R I O' isComponent] by auto
  with ret getResourceSchema_returns [OF a', of h O' isComponent "fst ro" "fst (snd ro)" "snd (snd ro)"
      I "fst ri" "fst (snd ri)" "snd (snd ri)"]
  have descr: "Description schema = index (Descriptions a) [] []"
    by auto
  from a' have a: "getAnnotated (Some R) = Returns a"
    by (simp add: TypeOfZero_def getAnnotated_def split: if_splits)
  with descr show "\<exists>a. getAnnotated (Some R) = Returns a
               \<and> Description schema = index (Descriptions a) [] []"
    by blast
  show "Description schema
          = (case hookOf R of Some a \<Rightarrow> index (Descriptions a) [] [] | None \<Rightarrow> [])"
    if "Kind (stripPointers R) \<noteq> Pointer"
    using getAnnotated_hookOf [OF that] a descr
    by (auto simp: index_def emptyAnnotator_def split: option.splits if_splits)
qed

theorem description_from_resource_type_witness:
  "(\<exists>schema errs. getResourceSchema exampleHelpers described brokenStruct invOutput False
      = Returns (schema, errs)
     \<and> errs \<noteq> [] \<and> Description schema = ''An inventory.'')
   \<and> getResourceSchema exampleHelpers hookedString invOutput invOutput False
       = Panics (AssertionFailed ''FieldMatcher must contain a struct'')"
proof -
  have panic: "getResourceSchema exampleHelpers hookedString invOutput invOutput False
       = Panics (AssertionFailed ''FieldMatcher must contain a struct'')"
    by (simp add: getResourceSchema_def TypeOfZero_def hookedString_def getAnnotated_hookOf
        hookOf_def)
  have strip: "Kind (stripPointers described) \<noteq> Pointer"
    and hook: "hookOf described
                 = Some (emptyAnnotator\<lparr>Descriptions := [[] \<mapsto> ''An inventory.'']\<rparr>)"
    by (simp_all add: described_def hookOf_def)
  have "getAnnotated (TypeOfZero described)
          = Returns (emptyAnnotator\<lparr>Descriptions := [[] \<mapsto> ''An inventory.'']\<rparr>)"
    by (simp add: TypeOfZero_def described_def getAnnotated_hookOf hookOf_def)
  from getResourceSchema_returns [OF this pass_invOutput pass_brokenStruct, of False]
  obtain schema errs where
    ret: "getResourceSchema exampleHelpers described brokenStruct invOutput False
            = Returns (schema, errs)"
    and errs: "errs \<noteq> []"
    by simp
  from description_from_resource_type [of exampleHelpers described brokenStruct invOutput False]
    ret strip
  have "Description schema
          = (case hookOf described of Some a \<Rightarrow> index (Descriptions a) [] [] | None \<Rightarrow> [])"
    by blast
  with ret errs panic show ?thesis
    by (auto simp: hook index_def)
qed

end
